theory Spec2Isabelle
  imports Main "HOL-Library.AList"
begin

section \<open>Data model of the print bot (src/bot.js)\<close>

text \<open>
  The bot is one JavaScript object holding five keyed stores and a history list.
  A JavaScript \<^verbatim>\<open>Map\<close> keeps its keys distinct and in insertion order; it is modelled
  as an association list read with \<^const>\<open>map_of\<close>, written with \<^const>\<open>AList.update\<close>
  (replace in place, or append a new key) and \<^const>\<open>AList.delete\<close>.
  Times are the millisecond readings of \<^verbatim>\<open>Date.now()\<close>, supplied by the caller.
  Message texts are abstracted to tags; logging is not modelled.
\<close>

type_synonym time = int
type_synonym job_id = string
type_synonym chat_id = string
type_synonym user_number = string

datatype job_status = Pending | Printing | Completed | Failed

datatype step = confirm_print | set_copies | set_options

record job_options =
  color :: bool
  duplex :: bool
  paperSize :: string
  quality :: string

record print_job =
  jobId :: job_id
  fileName :: string
  originalName :: string
  filePath :: string
  extension :: string
  pageCount :: int
  fileSize :: int
  chatId :: chat_id
  userNumber :: user_number
  status :: job_status
  copies :: int
  printOptions :: job_options
  createdAt :: time
  estimatedCost :: int
  startedAt :: "time option"
  completedAt :: "time option"
  failedAt :: "time option"

record session =
  step :: step
  printJobId :: job_id
  lastActivity :: time

record user_stat =
  totalRequests :: int
  totalPrints :: int
  totalPages :: int
  firstSeen :: time
  lastSeen :: time

text \<open>The settings the modelled functions read from \<^verbatim>\<open>this.config\<close>.\<close>

record config =
  defaultCopies :: int
  maxRequestsPerHour :: nat
  dirname :: string

datatype reply_text =
    JobNotFound
  | InvalidResponse
  | OptionsMenu
  | AskCopies
  | DuplexStatus bool
  | InvalidOption
  | CopiesOutOfRange
  | CopiesChanged int
  | Confirmation print_job nat
  | Processing
  | PrinterOffline
  | SendingToPrinter
  | PrintSuccess print_job
  | PrintFailedAfterRetries
  | SystemErrorMsg
  | Downloading
  | DownloadFailed
  | ValidationMessage string

text \<open>
  Everything the bot does to the outside world, in the order it happens:
  replies and edits on the chat transport, calls of the printer service, the delay
  between print attempts, and the timer of the deferred removal.
\<close>

datatype effect =
    Reply chat_id reply_text
  | EditMsg chat_id reply_text
  | CheckPrinter
  | ExecutePrint job_id nat
  | Wait nat
  | SetTimeoutCleanup nat job_id

datatype js_error = TypeError string | Thrown string

record bot =
  config :: config
  printQueue :: "(job_id \<times> print_job) list"
  userSessions :: "(chat_id \<times> session) list"
  userStats :: "(user_number \<times> user_stat) list"
  rateLimit :: "(user_number \<times> time list) list"
  printHistory :: "print_job list"
  printerStatus :: "bool \<times> time"
  files :: "string list"
  locked :: "string list"
  effects :: "effect list"

text \<open>
  \<^const>\<open>files\<close> are the paths that exist on disk and \<^const>\<open>locked\<close> the paths on which
  \<^verbatim>\<open>fs.unlinkSync\<close> raises; both belong to the file system the bot runs on.
  \<^const>\<open>effects\<close> is the chronological log of outbound effects.
\<close>

text \<open>The constructor: every store starts empty, the printer is assumed online.\<close>

definition constructor :: "config \<Rightarrow> time \<Rightarrow> string list \<Rightarrow> string list \<Rightarrow> bot" where
  "constructor cfg now fs lk =
     \<lparr> config = cfg, printQueue = [], userSessions = [], userStats = [], rateLimit = [],
       printHistory = [], printerStatus = (True, now), files = fs, locked = lk, effects = [] \<rparr>"

section \<open>Rate limiter\<close>

text \<open>
  \<^verbatim>\<open>checkRateLimit(userNumber)\<close>: creates the sender's list when missing, keeps the
  timestamps newer than one hour, stores the kept list, and either denies (the kept list
  has reached the cap) or appends the current time to the stored list and admits.
\<close>

definition hourMs :: int where
  "hourMs = 60 * 60 * 1000"

definition checkRateLimit :: "bot \<Rightarrow> user_number \<Rightarrow> time \<Rightarrow> bool \<times> bot" where
  "checkRateLimit b usr now =
     (let hourAgo = now - hourMs;
          rl1 = (if map_of (rateLimit b) usr = None
                 then AList.update usr [] (rateLimit b) else rateLimit b);
          userRequests = (case map_of rl1 usr of Some ts \<Rightarrow> ts | None \<Rightarrow> []);
          recentRequests = filter (\<lambda>timestamp. timestamp > hourAgo) userRequests;
          rl2 = AList.update usr recentRequests rl1
      in if int (length recentRequests) \<ge> int (maxRequestsPerHour (config b))
         then (False, b\<lparr>rateLimit := rl2\<rparr>)
         else (True, b\<lparr>rateLimit := AList.update usr (recentRequests @ [now]) rl2\<rparr>))"

text \<open>
  A sequence of admission checks, each by a sender at a clock reading; the result is
  the list of times at which the given sender was admitted.
\<close>

fun admitted :: "bot \<Rightarrow> (user_number \<times> time) list \<Rightarrow> user_number \<Rightarrow> time list" where
  "admitted b [] u = []"
| "admitted b ((v, now) # calls) u =
     (case checkRateLimit b v now of
        (ok, b') \<Rightarrow> (if ok \<and> v = u then [now] else []) @ admitted b' calls u)"

definition requestsOf :: "bot \<Rightarrow> user_number \<Rightarrow> time list" where
  "requestsOf b u = (case map_of (rateLimit b) u of Some ts \<Rightarrow> ts | None \<Rightarrow> [])"

text \<open>The admissions that fall in the 60 minutes ending at \<open>t\<close>: the times \<open>x\<close> with \<open>t - hourMs < x \<le> t\<close>.\<close>

definition inWindow :: "time \<Rightarrow> time list \<Rightarrow> time list" where
  "inWindow t xs = filter (\<lambda>x. t - hourMs < x \<and> x \<le> t) xs"


section \<open>Strings\<close>

text \<open>
  \<^verbatim>\<open>toLowerCase\<close>, \<^verbatim>\<open>trim\<close>, \<^verbatim>\<open>replace\<close>, \<^verbatim>\<open>toString\<close> and \<^verbatim>\<open>parseInt\<close> on ASCII text.
  JavaScript's \<^verbatim>\<open>trim\<close> and \<^verbatim>\<open>toLowerCase\<close> also act on characters beyond ASCII (the
  no-break space is white space to \<^verbatim>\<open>trim\<close>); message bodies here are ASCII, where the
  functions below agree with them.
\<close>

definition toLowerChar :: "char \<Rightarrow> char" where
  "toLowerChar c =
     (let n = (of_char c :: nat) in if 65 \<le> n \<and> n \<le> 90 then char_of (n + 32) else c)"

definition toLowerCase :: "string \<Rightarrow> string" where
  "toLowerCase s = map toLowerChar s"

definition isWhiteSpace :: "char \<Rightarrow> bool" where
  "isWhiteSpace c = ((of_char c :: nat) \<in> set [9, 10, 11, 12, 13, 32])"

definition trim :: "string \<Rightarrow> string" where
  "trim s = rev (dropWhile isWhiteSpace (rev (dropWhile isWhiteSpace s)))"

text \<open>\<^verbatim>\<open>s.replace(pat, rep)\<close> with a string pattern: the first occurrence only.\<close>

fun replaceFirst :: "string \<Rightarrow> string \<Rightarrow> string \<Rightarrow> string" where
  "replaceFirst pat rep [] = (if pat = [] then rep else [])"
| "replaceFirst pat rep (c # cs) =
     (if take (length pat) (c # cs) = pat then rep @ drop (length pat) (c # cs)
      else c # replaceFirst pat rep cs)"

fun string_of_nat :: "nat \<Rightarrow> string" where
  "string_of_nat n =
     (if n < 10 then [char_of (48 + n)]
      else string_of_nat (n div 10) @ [char_of (48 + n mod 10)])"

declare string_of_nat.simps [simp del]

definition toString :: "int \<Rightarrow> string" where
  "toString i = (if i < 0 then CHR ''-'' # string_of_nat (nat (- i)) else string_of_nat (nat i))"

definition digitValue :: "nat \<Rightarrow> char \<Rightarrow> nat option" where
  "digitValue radix c =
     (let n = (of_char c :: nat);
          d = (if 48 \<le> n \<and> n \<le> 57 then Some (n - 48)
               else if 97 \<le> n \<and> n \<le> 122 then Some (n - 87)
               else if 65 \<le> n \<and> n \<le> 90 then Some (n - 55)
               else None)
      in case d of None \<Rightarrow> None | Some v \<Rightarrow> if v < radix then Some v else None)"

fun parseDigits :: "nat \<Rightarrow> string \<Rightarrow> nat option \<Rightarrow> nat option" where
  "parseDigits radix [] acc = acc"
| "parseDigits radix (c # cs) acc =
     (case digitValue radix c of
        None \<Rightarrow> acc
      | Some d \<Rightarrow> parseDigits radix cs (Some (radix * (case acc of None \<Rightarrow> 0 | Some a \<Rightarrow> a) + d)))"

text \<open>
  \<^verbatim>\<open>parseInt(s)\<close> without a radix: leading white space, a sign, a \<^verbatim>\<open>0x\<close> prefix that
  selects base 16, then the longest run of digits; \<^verbatim>\<open>NaN\<close> (here \<open>None\<close>) when that run is empty.
\<close>

definition parseInt :: "string \<Rightarrow> int option" where
  "parseInt s =
     (let s1 = dropWhile isWhiteSpace s;
          neg = (take 1 s1 = ''-'');
          s2 = (if take 1 s1 = ''-'' \<or> take 1 s1 = ''+'' then drop 1 s1 else s1);
          hex = (take 2 s2 = ''0x'' \<or> take 2 s2 = ''0X'');
          radix = (if hex then 16 else 10);
          s3 = (if hex then drop 2 s2 else s2)
      in case parseDigits radix s3 None of
           None \<Rightarrow> None
         | Some n \<Rightarrow> Some (if neg then - int n else int n))"

section \<open>Job creation and cost\<close>

record message =
  msgFrom :: chat_id
  msgBody :: string

definition emit :: "effect \<Rightarrow> bot \<Rightarrow> bot" where
  "emit e b = b\<lparr>effects := effects b @ [e]\<rparr>"

definition reply :: "message \<Rightarrow> reply_text \<Rightarrow> bot \<Rightarrow> bot" where
  "reply msg txt b = emit (Reply (msgFrom msg) txt) b"

text \<open>A field write on a job object held by the queue: the entry is replaced in place.\<close>

definition setJob :: "job_id \<Rightarrow> print_job \<Rightarrow> bot \<Rightarrow> bot" where
  "setJob pjid j b = b\<lparr>printQueue := AList.update pjid j (printQueue b)\<rparr>"

definition setSession :: "chat_id \<Rightarrow> session \<Rightarrow> bot \<Rightarrow> bot" where
  "setSession cid s b = b\<lparr>userSessions := AList.update cid s (userSessions b)\<rparr>"

definition calculatePrintCost :: "int \<Rightarrow> bool \<Rightarrow> int" where
  "calculatePrintCost pages hasColor =
     (let bwCostPerPage = 500;
          colorCostPerPage = 2000;
          costPerPage = (if hasColor then colorCostPerPage else bwCostPerPage)
      in pages * costPerPage)"

text \<open>The cost the specification gives for a job: pages times copies times the per-page rate.\<close>

definition costFormula :: "print_job \<Rightarrow> int" where
  "costFormula j = pageCount j * copies j * (if color (printOptions j) then 2000 else 500)"

text \<open>
  What \<^verbatim>\<open>handleFileMessage\<close> gets from its collaborators: the downloaded media (or none),
  the verdict of \<^verbatim>\<open>validateFile\<close>, the result of \<^verbatim>\<open>analyzeFile\<close>, and the four clock
  readings it takes (file name, job id, creation date, session activity).
  Writing the file is taken to succeed.
\<close>

record media =
  mediaFilename :: "string option"

datatype validation = Invalid string | Valid string int

record analysis =
  analysisPageCount :: int
  analysisHasColor :: bool

record upload =
  download :: "media option"
  validationResult :: validation
  fileAnalysis :: analysis
  nameTime :: time
  idTime :: time
  createdTime :: time
  sessionTime :: time

definition handleFileMessage :: "upload \<Rightarrow> bot \<Rightarrow> message \<Rightarrow> bot" where
  "handleFileMessage up b msg =
     (let cid = msgFrom msg;
          usr = replaceFirst ''@c.us'' [] cid;
          b1 = reply msg Downloading b
      in case download up of
           None \<Rightarrow> reply msg DownloadFailed b1
         | Some m \<Rightarrow>
            (case validationResult up of
               Invalid txt \<Rightarrow> reply msg (ValidationMessage txt) b1
             | Valid ext fsize \<Rightarrow>
                (let fname = ''print_'' @ usr @ ''_'' @ toString (nameTime up) @ ''.'' @ ext;
                     fpath = dirname (config b1) @ ''/temp/'' @ fname;
                     b2 = b1\<lparr>files := (if fpath \<in> set (files b1) then files b1 else files b1 @ [fpath])\<rparr>;
                     fa = fileAnalysis up;
                     printJob = \<lparr> jobId = toString (idTime up),
                                  fileName = fname,
                                  originalName = (case mediaFilename m of Some n \<Rightarrow> if n = [] then fname else n
                                                  | None \<Rightarrow> fname),
                                  filePath = fpath,
                                  extension = ext,
                                  pageCount = analysisPageCount fa,
                                  fileSize = fsize,
                                  chatId = cid,
                                  userNumber = usr,
                                  status = Pending,
                                  copies = defaultCopies (config b2),
                                  printOptions = \<lparr> color = analysisHasColor fa, duplex = False,
                                                   paperSize = ''A4'', quality = ''normal'' \<rparr>,
                                  createdAt = createdTime up,
                                  estimatedCost = calculatePrintCost (analysisPageCount fa) (analysisHasColor fa),
                                  startedAt = None, completedAt = None, failedAt = None \<rparr>;
                     b3 = setJob (jobId printJob) printJob b2;
                     b4 = reply msg (Confirmation printJob (length (printQueue b3))) b3
                 in setSession cid \<lparr> step = confirm_print, printJobId = jobId printJob,
                                     lastActivity = sessionTime up \<rparr> b4)))"

section \<open>Option negotiation\<close>

definition showPrintOptions :: "time \<Rightarrow> bot \<Rightarrow> message \<Rightarrow> job_id \<Rightarrow> bot" where
  "showPrintOptions now b msg pjid =
     (case map_of (printQueue b) pjid of
        None \<Rightarrow> reply msg JobNotFound b
      | Some printJob \<Rightarrow>
          setSession (msgFrom msg) \<lparr> step = set_options, printJobId = pjid, lastActivity = now \<rparr>
            (reply msg OptionsMenu b))"

definition showUpdatedConfirmation :: "time \<Rightarrow> bot \<Rightarrow> message \<Rightarrow> job_id \<Rightarrow> bot" where
  "showUpdatedConfirmation now b msg pjid =
     (case map_of (printQueue b) pjid of
        None \<Rightarrow> reply msg JobNotFound b
      | Some printJob \<Rightarrow>
          setSession (msgFrom msg) \<lparr> step = confirm_print, printJobId = pjid, lastActivity = now \<rparr>
            (reply msg (Confirmation printJob (length (printQueue b))) b))"

text \<open>
  A handler either returns or raises; both leave a state behind.
  The class defines no method \<^verbatim>\<open>showQualityOptions\<close>, \<^verbatim>\<open>showPaperSizeOptions\<close> or
  \<^verbatim>\<open>cancelPrintJob\<close>: calling one raises a \<^verbatim>\<open>TypeError\<close> before anything else happens.
\<close>

datatype result = Done bot | Raised js_error bot

definition handleOptionsInput :: "time \<Rightarrow> bot \<Rightarrow> message \<Rightarrow> string \<Rightarrow> job_id \<Rightarrow> result" where
  "handleOptionsInput now b msg response pjid =
     (case map_of (printQueue b) pjid of
        None \<Rightarrow> Done (reply msg JobNotFound b)
      | Some printJob \<Rightarrow>
          if response = ''1'' then
            Done (setSession (msgFrom msg)
                    \<lparr> step = set_copies, printJobId = pjid, lastActivity = now \<rparr>
                    (reply msg AskCopies b))
          else if response = ''2'' then
            Raised (TypeError ''this.showQualityOptions is not a function'') b
          else if response = ''3'' then
            Raised (TypeError ''this.showPaperSizeOptions is not a function'') b
          else if response = ''4'' then
            (let opts = printOptions printJob;
                 job' = printJob\<lparr>printOptions := opts\<lparr>duplex := \<not> duplex opts\<rparr>\<rparr>;
                 b1 = setJob pjid job' b;
                 b2 = reply msg (DuplexStatus (duplex (printOptions job'))) b1
             in Done (showPrintOptions now b2 msg pjid))
          else if response = ''5'' then
            Done (showUpdatedConfirmation now b msg pjid)
          else Done (reply msg InvalidOption b))"

definition handleCopiesInput :: "time \<Rightarrow> bot \<Rightarrow> message \<Rightarrow> string \<Rightarrow> job_id \<Rightarrow> bot" where
  "handleCopiesInput now b msg response pjid =
     (let parsed = parseInt response
      in case map_of (printQueue b) pjid of
           None \<Rightarrow> reply msg JobNotFound b
         | Some printJob \<Rightarrow>
            (case parsed of
               None \<Rightarrow> reply msg CopiesOutOfRange b
             | Some n \<Rightarrow>
                 if n < 1 \<or> n > 10 then reply msg CopiesOutOfRange b
                 else
                   (let job' = printJob\<lparr>copies := n,
                          estimatedCost :=
                            calculatePrintCost (pageCount printJob) (color (printOptions printJob)) * n\<rparr>;
                        b1 = reply msg (CopiesChanged n) (setJob pjid job' b)
                    in showPrintOptions now b1 msg pjid)))"

section \<open>Execution engine\<close>

text \<open>
  One run of \<^verbatim>\<open>processPrintJob\<close> sees the printer through two calls: \<^verbatim>\<open>checkPrinter()\<close>,
  whose answer is \<open>printerOnline\<close>, and \<^verbatim>\<open>executePrint(job)\<close>, whose outcome at the
  \<open>k\<close>-th call of the run is \<open>printResult k\<close>: the promise resolves to true or false, or
  rejects. The run reads the clock when it starts, when the printer answers and when
  the job reaches its end.
\<close>

datatype print_outcome = PrintOk | PrintFail | PrintThrows

record printer_run =
  startTime :: time
  checkTime :: time
  endTime :: time
  printerOnline :: bool
  printResult :: "nat \<Rightarrow> print_outcome"

function retryLoop ::
  "(nat \<Rightarrow> print_outcome) \<Rightarrow> job_id \<Rightarrow> nat \<Rightarrow> nat \<Rightarrow> (js_error + bool) \<times> effect list" where
  "retryLoop pr pjid maxRetries attempt =
     (if attempt \<le> maxRetries then
        (case pr attempt of
           PrintOk \<Rightarrow> (Inr True, [ExecutePrint pjid attempt])
         | PrintThrows \<Rightarrow> (Inl (Thrown ''executePrint''), [ExecutePrint pjid attempt])
         | PrintFail \<Rightarrow>
            (case retryLoop pr pjid maxRetries (attempt + 1) of
               (res, es) \<Rightarrow>
                 (res, ExecutePrint pjid attempt
                         # (if attempt < maxRetries then [Wait 2000] else []) @ es)))
      else (Inr False, []))"
  by pat_completeness auto
termination
  by (relation "measure (\<lambda>(pr, pjid, maxRetries, attempt). maxRetries + 1 - attempt)") auto

declare retryLoop.simps [simp del]

definition executePrintWithRetry ::
  "(nat \<Rightarrow> print_outcome) \<Rightarrow> print_job \<Rightarrow> nat \<Rightarrow> (js_error + bool) \<times> effect list" where
  "executePrintWithRetry pr printJob maxRetries = retryLoop pr (jobId printJob) maxRetries 1"

definition processPrintJob :: "printer_run \<Rightarrow> bot \<Rightarrow> message \<Rightarrow> job_id \<Rightarrow> bot" where
  "processPrintJob run b msg pjid =
     (let cid = msgFrom msg;
          usr = replaceFirst ''@c.us'' [] cid
      in case map_of (printQueue b) pjid of
           None \<Rightarrow>
             (let b1 = reply msg JobNotFound b
              in b1\<lparr>userSessions := AList.delete cid (userSessions b1)\<rparr>)
         | Some printJob \<Rightarrow>
             (let job1 = printJob\<lparr>status := Printing, startedAt := Some (startTime run)\<rparr>;
                  b1 = reply msg Processing (setJob pjid job1 b);
                  b2 = (emit CheckPrinter b1)\<lparr>printerStatus := (printerOnline run, checkTime run)\<rparr>
              in if \<not> printerOnline run then
                   emit (EditMsg cid PrinterOffline) (setJob pjid (job1\<lparr>status := Failed\<rparr>) b2)
                 else
                   (let b3 = emit (EditMsg cid SendingToPrinter) b2;
                        (success, es) = executePrintWithRetry (printResult run) job1 3;
                        b4 = b3\<lparr>effects := effects b3 @ es\<rparr>;
                        b5 =
                          (case success of
                             Inr True \<Rightarrow>
                               (let job2 = job1\<lparr>status := Completed, completedAt := Some (endTime run)\<rparr>;
                                    stats =
                                      (case map_of (userStats b4) usr of
                                         None \<Rightarrow> userStats b4
                                       | Some st \<Rightarrow>
                                           AList.update usr
                                             (st\<lparr>totalPrints := totalPrints st + 1,
                                                 totalPages := totalPages st + pageCount job2 * copies job2\<rparr>)
                                             (userStats b4));
                                    b' = (setJob pjid job2 b4)
                                           \<lparr>userStats := stats,
                                            printHistory := take 100 (job2 # printHistory b4)\<rparr>
                                in emit (EditMsg cid (PrintSuccess job2)) b')
                           | Inr False \<Rightarrow>
                               emit (EditMsg cid PrintFailedAfterRetries)
                                 (setJob pjid (job1\<lparr>status := Failed, failedAt := Some (endTime run)\<rparr>) b4)
                           | Inl err \<Rightarrow>
                               reply msg SystemErrorMsg (setJob pjid (job1\<lparr>status := Failed\<rparr>) b4));
                        b6 = b5\<lparr>userSessions := AList.delete cid (userSessions b5)\<rparr>
                    in emit (SetTimeoutCleanup 300000 pjid) b6)))"

section \<open>Dispatch of a reply in a conversation\<close>

definition handleUserResponse :: "printer_run \<Rightarrow> time \<Rightarrow> bot \<Rightarrow> message \<Rightarrow> result" where
  "handleUserResponse run now b msg =
     (let cid = msgFrom msg;
          response = trim (toLowerCase (msgBody msg))
      in case map_of (userSessions b) cid of
           None \<Rightarrow> Done b
         | Some s \<Rightarrow>
            (case step s of
               confirm_print \<Rightarrow>
                 if response \<in> set [''ya'', ''y'', ''yes'', ''ok''] then
                   Done (processPrintJob run b msg (printJobId s))
                 else if response \<in> set [''batal'', ''cancel'', ''no'', ''tidak''] then
                   Raised (TypeError ''this.cancelPrintJob is not a function'') b
                 else if response \<in> set [''opsi'', ''option'', ''setting''] then
                   Done (showPrintOptions now b msg (printJobId s))
                 else Done (reply msg InvalidResponse b)
             | set_copies \<Rightarrow> Done (handleCopiesInput now b msg response (printJobId s))
             | set_options \<Rightarrow> handleOptionsInput now b msg response (printJobId s)))"

definition stateOf :: "result \<Rightarrow> bot" where
  "stateOf r = (case r of Done b \<Rightarrow> b | Raised e b \<Rightarrow> b)"

section \<open>Reclamation\<close>


definition sessionTimeout :: int where
  "sessionTimeout = 15 * 60 * 1000"


text \<open>
  The two sweeps walk the keys of a map and read the entry each key holds when the
  walk reaches it; deleting the entry under the cursor does not disturb the walk.
\<close>

definition cleanupOldSessions :: "bot \<Rightarrow> time \<Rightarrow> bot" where
  "cleanupOldSessions b now =
     fold (\<lambda>cid b'.
             case map_of (userSessions b') cid of
               None \<Rightarrow> b'
             | Some s \<Rightarrow>
                 if now - lastActivity s > sessionTimeout
                 then b'\<lparr>userSessions := AList.delete cid (userSessions b')\<rparr> else b')
          (map fst (userSessions b)) b"



section \<open>Reading a run\<close>

text \<open>The printer calls and delays among a list of effects, in order.\<close>

fun isPrintStep :: "effect \<Rightarrow> bool" where
  "isPrintStep (ExecutePrint pjid k) = True"
| "isPrintStep (Wait ms) = True"
| "isPrintStep e = False"

definition printTrace :: "effect list \<Rightarrow> effect list" where
  "printTrace es = filter isPrintStep es"

text \<open>The effects a handler added to the log of the state it started from.\<close>

definition newEffects :: "bot \<Rightarrow> bot \<Rightarrow> effect list" where
  "newEffects b b' = drop (length (effects b)) (effects b')"

text \<open>Attempts \<open>1\<close> to \<open>k\<close> of a job with the two-second delay between consecutive ones.\<close>

fun retryTrace :: "job_id \<Rightarrow> nat \<Rightarrow> effect list" where
  "retryTrace pjid 0 = []"
| "retryTrace pjid (Suc 0) = [ExecutePrint pjid 1]"
| "retryTrace pjid (Suc (Suc n)) =
     retryTrace pjid (Suc n) @ [Wait 2000, ExecutePrint pjid (Suc (Suc n))]"


definition raised :: "result \<Rightarrow> js_error option" where
  "raised r = (case r of Done b \<Rightarrow> None | Raised e b \<Rightarrow> Some e)"

fun isCleanupTimer :: "effect \<Rightarrow> bool" where
  "isCleanupTimer (SetTimeoutCleanup ms pjid) = True"
| "isCleanupTimer e = False"

section \<open>Example states\<close>

definition example_config :: config where
  "example_config = \<lparr> defaultCopies = 1, maxRequestsPerHour = 1, dirname = ''/srv/bot'' \<rparr>"

definition example_bot :: bot where
  "example_bot = constructor example_config 0 [] []"

definition two_copies_config :: config where
  "two_copies_config = \<lparr> defaultCopies = 2, maxRequestsPerHour = 50, dirname = ''/srv/bot'' \<rparr>"

definition example_upload :: upload where
  "example_upload =
     \<lparr> download = Some \<lparr> mediaFilename = Some ''doc.pdf'' \<rparr>,
       validationResult = Valid ''pdf'' 2048,
       fileAnalysis = \<lparr> analysisPageCount = 3, analysisHasColor = False \<rparr>,
       nameTime = 1000, idTime = 1000, createdTime = 1000, sessionTime = 1000 \<rparr>"

definition example_msg :: "string \<Rightarrow> message" where
  "example_msg body = \<lparr> msgFrom = ''628a@c.us'', msgBody = body \<rparr>"

definition example_job :: print_job where
  "example_job =
     \<lparr> jobId = ''1000'',
       fileName = ''print_628a_1000.pdf'',
       originalName = ''doc.pdf'',
       filePath = ''/srv/bot/temp/print_628a_1000.pdf'',
       extension = ''pdf'',
       pageCount = 3,
       fileSize = 2048,
       chatId = ''628a@c.us'',
       userNumber = ''628a'',
       status = Pending,
       copies = 1,
       printOptions = \<lparr> color = False, duplex = False, paperSize = ''A4'', quality = ''normal'' \<rparr>,
       createdAt = 1000,
       estimatedCost = 1500,
       startedAt = None, completedAt = None, failedAt = None \<rparr>"

text \<open>The state right after the upload of \<open>example_upload\<close>: one pending job, its session, its file.\<close>

definition pending_bot :: bot where
  "pending_bot =
     \<lparr> config = example_config,
       printQueue = [(''1000'', example_job)],
       userSessions = [(''628a@c.us'', \<lparr> step = confirm_print, printJobId = ''1000'', lastActivity = 1000 \<rparr>)],
       userStats = [], rateLimit = [], printHistory = [], printerStatus = (True, 0),
       files = [''/srv/bot/temp/print_628a_1000.pdf''], locked = [],
       effects = [Reply ''628a@c.us'' Downloading,
                  Reply ''628a@c.us'' (Confirmation example_job 1)] \<rparr>"

text \<open>A session whose job is gone from the queue.\<close>

definition dangling_bot :: "step \<Rightarrow> bot" where
  "dangling_bot st =
     \<lparr> config = example_config,
       printQueue = [],
       userSessions = [(''628a@c.us'', \<lparr> step = st, printJobId = ''1000'', lastActivity = 1000 \<rparr>)],
       userStats = [], rateLimit = [], printHistory = [], printerStatus = (True, 0),
       files = [], locked = [], effects = [] \<rparr>"

definition offline_run :: printer_run where
  "offline_run = \<lparr> startTime = 2000, checkTime = 2100, endTime = 2200,
                   printerOnline = False, printResult = (\<lambda>k. PrintOk) \<rparr>"

definition failing_run :: printer_run where
  "failing_run = \<lparr> startTime = 2000, checkTime = 2100, endTime = 9000,
                   printerOnline = True, printResult = (\<lambda>k. PrintFail) \<rparr>"

definition third_time_run :: printer_run where
  "third_time_run = \<lparr> startTime = 2000, checkTime = 2100, endTime = 9000,
                      printerOnline = True,
                      printResult = (\<lambda>k. if k = 3 then PrintOk else PrintFail) \<rparr>"

text \<open>
  The conversation that reaches a failed job with a live session: the upload is confirmed
  while the printer is offline, then the sender asks for the options menu.
\<close>

definition offline_failed_bot :: bot where
  "offline_failed_bot = stateOf (handleUserResponse offline_run 2000 pending_bot (example_msg ''YA''))"

definition options_bot :: bot where
  "options_bot = stateOf (handleUserResponse offline_run 3000 offline_failed_bot (example_msg ''opsi''))"

definition failed_example_job :: print_job where
  "failed_example_job = example_job\<lparr>status := Failed, startedAt := Some 2000\<rparr>"

text \<open>The same upload under a configuration whose default is two copies.\<close>

definition two_copies_bot :: bot where
  "two_copies_bot =
     handleFileMessage example_upload (constructor two_copies_config 0 [] []) (example_msg [])"





section \<open>Field projections of the state updates\<close>

lemma emit_fields [simp]:
  "effects (emit e b) = effects b @ [e]"
  "printQueue (emit e b) = printQueue b"
  "userSessions (emit e b) = userSessions b"
  "userStats (emit e b) = userStats b"
  "printHistory (emit e b) = printHistory b"
  "files (emit e b) = files b"
  "locked (emit e b) = locked b"
  "config (emit e b) = config b"
  by (simp_all add: emit_def)

lemma reply_fields [simp]:
  "effects (reply msg txt b) = effects b @ [Reply (msgFrom msg) txt]"
  "printQueue (reply msg txt b) = printQueue b"
  "userSessions (reply msg txt b) = userSessions b"
  "userStats (reply msg txt b) = userStats b"
  "printHistory (reply msg txt b) = printHistory b"
  "files (reply msg txt b) = files b"
  "locked (reply msg txt b) = locked b"
  "config (reply msg txt b) = config b"
  by (simp_all add: reply_def)

lemma setJob_fields [simp]:
  "effects (setJob k j b) = effects b"
  "printQueue (setJob k j b) = AList.update k j (printQueue b)"
  "userSessions (setJob k j b) = userSessions b"
  "userStats (setJob k j b) = userStats b"
  "printHistory (setJob k j b) = printHistory b"
  "files (setJob k j b) = files b"
  "locked (setJob k j b) = locked b"
  "config (setJob k j b) = config b"
  by (simp_all add: setJob_def)

lemma setSession_fields [simp]:
  "effects (setSession k s b) = effects b"
  "printQueue (setSession k s b) = printQueue b"
  "userSessions (setSession k s b) = AList.update k s (userSessions b)"
  "userStats (setSession k s b) = userStats b"
  "printHistory (setSession k s b) = printHistory b"
  "files (setSession k s b) = files b"
  "locked (setSession k s b) = locked b"
  "config (setSession k s b) = config b"
  by (simp_all add: setSession_def)

lemma showPrintOptions_queue [simp]:
  "printQueue (showPrintOptions now b msg pjid) = printQueue b"
  by (simp add: showPrintOptions_def split: option.splits)

lemma newEffects_append: "effects b' = effects b @ es \<Longrightarrow> newEffects b b' = es"
  by (simp add: newEffects_def)

section \<open>The example inputs, evaluated\<close>

lemma toString_example: "toString 1000 = ''1000''"
  by code_simp

lemma strip_example: "replaceFirst ''@c.us'' [] ''628a@c.us'' = ''628a''"
  by simp

lemma trim_lower_batal: "trim (toLowerCase ''  BaTaL '') = ''batal''"
  by code_simp

lemma responses:
  "trim (toLowerCase ''YA'') = ''ya''"
  "trim (toLowerCase ''opsi'') = ''opsi''"
  "trim (toLowerCase ''4'') = ''4''"
  "trim (toLowerCase ''3'') = ''3''"
  "trim (toLowerCase ''1'') = ''1''"
  "trim (toLowerCase ''BATAL'') = ''batal''"
  "trim (toLowerCase ''cancel'') = ''cancel''"
  "trim (toLowerCase '' No '') = ''no''"
  "trim (toLowerCase ''Tidak'') = ''tidak''"
  by code_simp+

lemma parseInt_values:
  "parseInt ''7'' = Some 7"
  "parseInt ''3'' = Some 3"
  "parseInt ''0xa'' = Some 10"
  "parseInt ''abc'' = None"
  "parseInt ''7 lembar'' = Some 7"
  "parseInt ''-3'' = Some (-3)"
  by code_simp+

lemma upload_gives_pending_bot:
  "handleFileMessage example_upload example_bot (example_msg []) = pending_bot"
  by (simp add: handleFileMessage_def example_upload_def example_bot_def example_msg_def
        pending_bot_def example_job_def example_config_def constructor_def reply_def emit_def
        setJob_def setSession_def calculatePrintCost_def toString_example Let_def)

lemma pending_bot_job: "map_of (printQueue pending_bot) ''1000'' = Some example_job"
  by (simp add: pending_bot_def)

lemma offline_failed_bot_eq:
  "offline_failed_bot =
     pending_bot\<lparr>printQueue := [(''1000'', example_job\<lparr>status := Failed, startedAt := Some 2000\<rparr>)],
                 printerStatus := (False, 2100),
                 effects := effects pending_bot
                   @ [Reply ''628a@c.us'' Processing, CheckPrinter, EditMsg ''628a@c.us'' PrinterOffline]\<rparr>"
  by (simp add: offline_failed_bot_def handleUserResponse_def responses pending_bot_def example_msg_def
        offline_run_def processPrintJob_def stateOf_def Let_def reply_def emit_def setJob_def)

lemma options_bot_eq:
  "options_bot =
     offline_failed_bot\<lparr>userSessions := [(''628a@c.us'', \<lparr> step = set_options, printJobId = ''1000'', lastActivity = 3000 \<rparr>)],
                 effects := effects offline_failed_bot @ [Reply ''628a@c.us'' OptionsMenu]\<rparr>"
  by (simp add: options_bot_def handleUserResponse_def responses offline_failed_bot_eq pending_bot_def example_msg_def
        showPrintOptions_def stateOf_def Let_def reply_def emit_def setSession_def)

section \<open>Rate limiter: the hourly cap\<close>

lemma requestsOf_other:
  "v \<noteq> u \<Longrightarrow> requestsOf (snd (checkRateLimit b v now)) u = requestsOf b u"
  by (simp add: checkRateLimit_def requestsOf_def Let_def update_conv')

lemma requestsOf_same:
  "requestsOf (snd (checkRateLimit b u now)) u =
     (let recent = filter (\<lambda>x. x > now - hourMs) (requestsOf b u)
      in if length recent \<ge> maxRequestsPerHour (config b) then recent else recent @ [now])"
  by (auto simp add: checkRateLimit_def requestsOf_def Let_def update_conv' split: option.splits)

lemma admit_iff:
  "fst (checkRateLimit b u now) \<longleftrightarrow>
     length (filter (\<lambda>x. x > now - hourMs) (requestsOf b u)) < maxRequestsPerHour (config b)"
  by (auto simp add: checkRateLimit_def requestsOf_def Let_def update_conv' split: option.splits)

lemma config_checkRateLimit: "config (snd (checkRateLimit b v now)) = config b"
  by (simp add: checkRateLimit_def Let_def)

lemma admitted_subset: "set (admitted b calls u) \<subseteq> snd ` set calls"
proof (induction calls arbitrary: b)
  case Nil
  show ?case by simp
next
  case (Cons c calls)
  obtain v now where c: "c = (v, now)" by (cases c)
  obtain ok b' where r: "checkRateLimit b v now = (ok, b')" by (cases "checkRateLimit b v now")
  from Cons.IH[of b'] show ?case using c r by auto
qed

lemma inWindow_append: "inWindow t (xs @ ys) = inWindow t xs @ inWindow t ys"
  by (simp add: inWindow_def)

lemma inWindow_later_empty:
  "\<forall>x\<in>set B. now \<le> x \<Longrightarrow> t < now \<Longrightarrow> inWindow t B = []"
  by (auto simp add: inWindow_def filter_empty_conv)

lemma inWindow_recent:
  "now \<le> t \<Longrightarrow> inWindow t (filter (\<lambda>x. x > now - hourMs) S) = inWindow t S"
  by (auto simp add: inWindow_def intro!: filter_cong)

lemma window_purge:
  assumes B: "\<forall>x\<in>set B. now \<le> x"
    and S: "length (inWindow t S) \<le> m"
    and R: "length (inWindow t (filter (\<lambda>x. x > now - hourMs) S @ B)) \<le> m"
  shows "length (inWindow t (S @ B)) \<le> m"
proof (cases "t < now")
  case True
  with B have "inWindow t B = []" by (rule inWindow_later_empty[rotated -1, rotated]) 
  with S show ?thesis by (simp add: inWindow_append)
next
  case False
  then have "inWindow t (filter (\<lambda>x. x > now - hourMs) S) = inWindow t S"
    by (simp add: inWindow_recent)
  with R show ?thesis by (simp add: inWindow_append)
qed

lemma inWindow_filter: "length (inWindow t (filter P xs)) \<le> length (inWindow t xs)"
proof -
  have "inWindow t (filter P xs) = filter P (inWindow t xs)"
    by (auto simp add: inWindow_def intro: filter_cong)
  then show ?thesis by simp
qed

lemma length_inWindow_le: "length (inWindow t xs) \<le> length xs"
  by (simp add: inWindow_def)

lemma window_general:
  assumes "sorted (map snd calls)"
    and "\<forall>x\<in>set (requestsOf b u). \<forall>c\<in>set calls. x \<le> snd c"
    and "\<forall>t. length (inWindow t (requestsOf b u)) \<le> maxRequestsPerHour (config b)"
  shows "length (inWindow t (requestsOf b u @ admitted b calls u)) \<le> maxRequestsPerHour (config b)"
  using assms
proof (induction calls arbitrary: b t)
  case Nil
  then show ?case by simp
next
  case (Cons c calls)
  obtain v now where c: "c = (v, now)" by (cases c)
  obtain ok b' where r: "checkRateLimit b v now = (ok, b')" by (cases "checkRateLimit b v now")
  have b': "b' = snd (checkRateLimit b v now)" and ok: "ok = fst (checkRateLimit b v now)"
    using r by simp_all
  have cfg: "config b' = config b" by (simp add: b' config_checkRateLimit)
  have sorted': "sorted (map snd calls)" and later: "\<forall>d\<in>set calls. now \<le> snd d"
    using Cons.prems(1) c by auto
  let ?m = "maxRequestsPerHour (config b)"
  let ?S = "requestsOf b u"
  show ?case
  proof (cases "v = u")
    case False
    then have same: "requestsOf b' u = ?S" by (simp add: b' requestsOf_other)
    have "length (inWindow t (requestsOf b' u @ admitted b' calls u)) \<le> maxRequestsPerHour (config b')"
      apply (rule Cons.IH[OF sorted'])
      using Cons.prems(2,3) same cfg by auto
    then show ?thesis using False c r same cfg by simp
  next
    case True
    let ?R = "filter (\<lambda>x. x > now - hourMs) ?S"
    have Sle: "\<forall>x\<in>set ?S. x \<le> now" using Cons.prems(2) c by auto
    have Alater: "\<forall>x\<in>set (admitted b' calls u). now \<le> x"
      using admitted_subset[of b' calls u] later by auto
    show ?thesis
    proof (cases ok)
      case False
      then have st: "requestsOf b' u = ?R"
        using True ok b' by (simp add: requestsOf_same admit_iff Let_def)
      have "length (inWindow t (requestsOf b' u @ admitted b' calls u)) \<le> maxRequestsPerHour (config b')"
      proof (rule Cons.IH[OF sorted'])
        show "\<forall>x\<in>set (requestsOf b' u). \<forall>c\<in>set calls. x \<le> snd c"
          using st Sle later by fastforce
        show "\<forall>t. length (inWindow t (requestsOf b' u)) \<le> maxRequestsPerHour (config b')"
        proof
          fix s
          have "length (inWindow s ?R) \<le> length (inWindow s ?S)"
            by (simp add: inWindow_filter)
          then show "length (inWindow s (requestsOf b' u)) \<le> maxRequestsPerHour (config b')"
            using Cons.prems(3) st cfg by (metis le_trans)
        qed
      qed
      then have "length (inWindow t (?R @ admitted b' calls u)) \<le> ?m" by (simp add: st cfg)
      then have "length (inWindow t (?S @ admitted b' calls u)) \<le> ?m"
        using window_purge[OF Alater] Cons.prems(3) by blast
      then show ?thesis using False True c r by simp
    next
      case ok': True
      then have lt: "length ?R < ?m" using True ok by (simp add: admit_iff)
      have st: "requestsOf b' u = ?R @ [now]"
        using True ok ok' b' lt by (simp add: requestsOf_same Let_def)
      have "length (inWindow t (requestsOf b' u @ admitted b' calls u)) \<le> maxRequestsPerHour (config b')"
      proof (rule Cons.IH[OF sorted'])
        show "\<forall>x\<in>set (requestsOf b' u). \<forall>c\<in>set calls. x \<le> snd c"
          using st Sle later by fastforce
        show "\<forall>t. length (inWindow t (requestsOf b' u)) \<le> maxRequestsPerHour (config b')"
        proof
          fix s
          have "length (inWindow s (?R @ [now])) \<le> length (?R @ [now])" by (rule length_inWindow_le)
          then show "length (inWindow s (requestsOf b' u)) \<le> maxRequestsPerHour (config b')"
            using lt st cfg by simp
        qed
      qed
      then have "length (inWindow t (?R @ (now # admitted b' calls u))) \<le> ?m" by (simp add: st cfg)
      moreover have "\<forall>x\<in>set (now # admitted b' calls u). now \<le> x" using Alater by simp
      ultimately have "length (inWindow t (?S @ (now # admitted b' calls u))) \<le> ?m"
        using window_purge Cons.prems(3) by blast
      then show ?thesis using ok' True c r by simp
    qed
  qed
qed

lemma requestsOf_constructor: "requestsOf (constructor cfg t0 fs lk) u = []"
  by (simp add: requestsOf_def constructor_def)

lemma config_constructor: "config (constructor cfg t0 fs lk) = cfg"
  by (simp add: constructor_def)

text \<open>
  Claim C8. Start from the constructor's empty rate-limit map and run any sequence of
  admission checks whose clock readings never go backwards. For every sender \<open>u\<close> and
  every instant \<open>t\<close>, the checks of \<open>u\<close> that were admitted at a time in the 60 minutes
  ending at \<open>t\<close> (after \<open>t - 3600000\<close>, up to \<open>t\<close>) number at most \<open>maxRequestsPerHour\<close>.
  A denied check stores for its sender the old list without the entries of an hour ago
  or older and nothing else: no new timestamp, no change for any other sender, no
  change to any other field of the bot.
\<close>

theorem rate_limit_window_cap:
  "(sorted (map snd calls) \<longrightarrow>
      length (inWindow t (admitted (constructor cfg t0 fs lk) calls u)) \<le> maxRequestsPerHour cfg)
   \<and> (checkRateLimit b u now = (False, b') \<longrightarrow>
        requestsOf b' u = filter (\<lambda>x. now - hourMs < x) (requestsOf b u)
      \<and> (\<forall>v. v \<noteq> u \<longrightarrow> requestsOf b' v = requestsOf b v)
      \<and> b' = b\<lparr>rateLimit := rateLimit b'\<rparr>)"
proof (intro conjI impI)
  assume "sorted (map snd calls)"
  then have "length (inWindow t (requestsOf (constructor cfg t0 fs lk) u
                @ admitted (constructor cfg t0 fs lk) calls u))
             \<le> maxRequestsPerHour (config (constructor cfg t0 fs lk))"
    by (rule window_general) (simp_all add: requestsOf_constructor inWindow_def)
  then show "length (inWindow t (admitted (constructor cfg t0 fs lk) calls u)) \<le> maxRequestsPerHour cfg"
    by (simp add: requestsOf_constructor config_constructor)
next
  assume d: "checkRateLimit b u now = (False, b')"
  then have b': "b' = snd (checkRateLimit b u now)" and no: "\<not> fst (checkRateLimit b u now)"
    by simp_all
  from no show "requestsOf b' u = filter (\<lambda>x. now - hourMs < x) (requestsOf b u)"
    unfolding b' by (simp add: requestsOf_same admit_iff Let_def)
  show "\<forall>v. v \<noteq> u \<longrightarrow> requestsOf b' v = requestsOf b v"
    unfolding b' by (simp add: requestsOf_other)
  show "b' = b\<lparr>rateLimit := rateLimit b'\<rparr>"
    unfolding b' by (simp add: checkRateLimit_def Let_def)
qed

text \<open>
  With a cap of one request per hour: the sender is admitted at time 0 and denied at
  time 5; the denial leaves the stored list as it was.
\<close>

theorem rate_limit_window_cap_witness:
  "sorted (map snd [(''628a'', 0::int), (''628a'', 5)])
   \<and> admitted example_bot [(''628a'', 0), (''628a'', 5)] ''628a'' = [0]
   \<and> length (inWindow 5 (admitted example_bot [(''628a'', 0), (''628a'', 5)] ''628a'')) \<le> maxRequestsPerHour example_config
   \<and> checkRateLimit (snd (checkRateLimit example_bot ''628a'' 0)) ''628a'' 5
        = (False, snd (checkRateLimit example_bot ''628a'' 0))
   \<and> requestsOf (snd (checkRateLimit example_bot ''628a'' 0)) ''628a'' = [0]"
  using rate_limit_window_cap[of "[(''628a'', 0), (''628a'', 5)]" 5 example_config 0 "[]" "[]" "''628a''"
          "snd (checkRateLimit example_bot ''628a'' 0)" 5 "snd (checkRateLimit example_bot ''628a'' 0)"]
  by (simp add: example_bot_def example_config_def constructor_def checkRateLimit_def
        hourMs_def Let_def requestsOf_def inWindow_def)

section \<open>Job creation: the estimated cost\<close>

text \<open>
  Claim C1 (the code departs from it). With \<open>defaultCopies = 2\<close> in the configuration, the
  upload of a three-page black-and-white file creates a job with \<open>copies = 2\<close> and
  \<open>estimatedCost = 1500\<close>, the price of one copy, where pages times copies times the rate
  is 3000: \<^verbatim>\<open>handleFileMessage\<close> calls \<^verbatim>\<open>calculatePrintCost\<close> without the copies factor.
\<close>

theorem creation_cost_omits_copies:
  "map_of (printQueue two_copies_bot) ''1000'' = Some (example_job\<lparr>copies := 2\<rparr>)
   \<and> pageCount (example_job\<lparr>copies := 2\<rparr>) = 3
   \<and> color (printOptions (example_job\<lparr>copies := 2\<rparr>)) = False
   \<and> estimatedCost (example_job\<lparr>copies := 2\<rparr>) = 1500
   \<and> costFormula (example_job\<lparr>copies := 2\<rparr>) = 3000"
  by (simp add: two_copies_bot_def handleFileMessage_def example_upload_def two_copies_config_def
        constructor_def example_msg_def example_job_def calculatePrintCost_def costFormula_def
        toString_example Let_def reply_def emit_def setJob_def setSession_def)

text \<open>A change of copies does multiply: after it the stored cost meets the formula.\<close>

lemma copies_input_cost_formula:
  assumes "map_of (printQueue b) pjid = Some job"
    and "parseInt response = Some n" and "1 \<le> n" and "n \<le> 10"
    and "map_of (printQueue (handleCopiesInput now b msg response pjid)) pjid = Some job'"
  shows "copies job' = n \<and> estimatedCost job' = costFormula job'"
  using assms
  by (auto simp add: handleCopiesInput_def Let_def update_conv' calculatePrintCost_def costFormula_def)

section \<open>Option negotiation\<close>

text \<open>
  Claim C2, as the code has it. No handler reads the status of the job it changes.
  Whenever the referenced job is in the queue, whatever its status, option 4 returns
  normally and leaves the job with its duplex flag inverted and nothing else changed,
  and a copies input that \<^verbatim>\<open>parseInt\<close> reads as a number from 1 to 10 leaves the job with
  that number of copies, the cost recomputed from it, and nothing else changed; in
  particular the status stays what it was.
\<close>

theorem option_mutation_any_status:
  assumes found: "map_of (printQueue b) pjid = Some job"
  shows "(\<exists>b'. handleOptionsInput now b msg ''4'' pjid = Done b'
            \<and> map_of (printQueue b') pjid
                = Some (job\<lparr>printOptions := (printOptions job)\<lparr>duplex := \<not> duplex (printOptions job)\<rparr>\<rparr>))
       \<and> (parseInt response = Some n \<and> 1 \<le> n \<and> n \<le> 10 \<longrightarrow>
            map_of (printQueue (handleCopiesInput now' b msg' response pjid)) pjid
              = Some (job\<lparr>copies := n,
                          estimatedCost := calculatePrintCost (pageCount job) (color (printOptions job)) * n\<rparr>))"
  using found
  by (simp add: handleOptionsInput_def handleCopiesInput_def Let_def update_conv')

text \<open>The two mutations on a job whose status is \<open>Failed\<close>.\<close>

theorem option_mutation_any_status_witness:
  "map_of (printQueue options_bot) ''1000'' = Some failed_example_job
   \<and> parseInt ''3'' = Some 3 \<and> (1::int) \<le> 3 \<and> (3::int) \<le> 10
   \<and> (\<exists>b'. handleOptionsInput 4000 options_bot (example_msg ''4'') ''4'' ''1000'' = Done b'
          \<and> map_of (printQueue b') ''1000''
              = Some (failed_example_job\<lparr>printOptions :=
                        (printOptions failed_example_job)
                          \<lparr>duplex := \<not> duplex (printOptions failed_example_job)\<rparr>\<rparr>))
   \<and> map_of (printQueue (handleCopiesInput 5000 options_bot (example_msg ''3'') ''3'' ''1000'')) ''1000''
        = Some (failed_example_job\<lparr>copies := 3,
                  estimatedCost := calculatePrintCost (pageCount failed_example_job)
                                     (color (printOptions failed_example_job)) * 3\<rparr>)"
proof -
  have found: "map_of (printQueue options_bot) ''1000'' = Some failed_example_job"
    by (simp add: options_bot_eq offline_failed_bot_eq failed_example_job_def)
  have parsed: "parseInt ''3'' = Some 3 \<and> (1::int) \<le> 3 \<and> (3::int) \<le> 10"
    by (simp add: parseInt_values)
  from option_mutation_any_status[OF found, where now = 4000 and msg = "example_msg ''4''"
      and response = "''3''" and n = 3 and now' = 5000 and msg' = "example_msg ''3''"]
    found parsed
  show ?thesis by blast
qed

text \<open>
  Claim C2 as stated fails. The sender confirms while the printer is offline, which
  leaves the job \<open>Failed\<close> and the session alive, then opens the options menu and sends
  \<^verbatim>\<open>4\<close>: the handler returns without an error and the failed job's duplex flag has gone
  from off to on.
\<close>

theorem duplex_toggled_on_failed_job:
  "map_of (printQueue options_bot) ''1000'' = Some failed_example_job
   \<and> status failed_example_job = Failed
   \<and> duplex (printOptions failed_example_job) = False
   \<and> map_of (userSessions options_bot) ''628a@c.us''
        = Some \<lparr> step = set_options, printJobId = ''1000'', lastActivity = 3000 \<rparr>
   \<and> raised (handleUserResponse offline_run 4000 options_bot (example_msg ''4'')) = None
   \<and> map_of (printQueue (stateOf (handleUserResponse offline_run 4000 options_bot (example_msg ''4''))))
        ''1000''
        = Some (failed_example_job\<lparr>printOptions :=
                  \<lparr> color = False, duplex = True, paperSize = ''A4'', quality = ''normal'' \<rparr>\<rparr>)"
  by (simp add: handleUserResponse_def handleOptionsInput_def responses options_bot_eq offline_failed_bot_eq
        pending_bot_def example_msg_def example_job_def failed_example_job_def raised_def stateOf_def
        showPrintOptions_def Let_def reply_def emit_def setSession_def setJob_def)

text \<open>In general: any cancellation reply in \<open>confirm_print\<close> raises and changes nothing.\<close>

lemma cancel_reply_raises:
  assumes "map_of (userSessions b) (msgFrom msg) = Some s" and "step s = confirm_print"
    and "trim (toLowerCase (msgBody msg)) \<in> set [''batal'', ''cancel'', ''no'', ''tidak'']"
  shows "handleUserResponse run now b msg
           = Raised (TypeError ''this.cancelPrintJob is not a function'') b"
  using assms by (auto simp add: handleUserResponse_def Let_def)

text \<open>
  Claim C3 (the code departs from it). In the step \<open>confirm_print\<close> each of the replies
  \<^verbatim>\<open>BATAL\<close>, \<^verbatim>\<open>cancel\<close>, \<^verbatim>\<open>No\<close> and \<^verbatim>\<open>Tidak\<close> makes \<^verbatim>\<open>handleUserResponse\<close> call
  \<^verbatim>\<open>this.cancelPrintJob\<close>, which the class does not define: the handler raises a
  \<^verbatim>\<open>TypeError\<close> and the state is what it was, the job still queued and the session still
  stored.
\<close>

theorem cancel_raises_type_error:
  "handleUserResponse offline_run 2000 pending_bot (example_msg ''BATAL'')
     = Raised (TypeError ''this.cancelPrintJob is not a function'') pending_bot
   \<and> handleUserResponse offline_run 2000 pending_bot (example_msg ''cancel'')
     = Raised (TypeError ''this.cancelPrintJob is not a function'') pending_bot
   \<and> handleUserResponse offline_run 2000 pending_bot (example_msg '' No '')
     = Raised (TypeError ''this.cancelPrintJob is not a function'') pending_bot
   \<and> handleUserResponse offline_run 2000 pending_bot (example_msg ''Tidak'')
     = Raised (TypeError ''this.cancelPrintJob is not a function'') pending_bot
   \<and> map fst (printQueue pending_bot) = [''1000'']
   \<and> map fst (userSessions pending_bot) = [''628a@c.us'']"
  by (simp add: handleUserResponse_def responses pending_bot_def example_msg_def)

text \<open>In general: with the job missing, neither input handler touches the session store.\<close>

lemma missing_job_keeps_session:
  assumes "map_of (printQueue b) pjid = None"
  shows "handleCopiesInput now b msg response pjid = reply msg JobNotFound b"
    and "handleOptionsInput now b msg response pjid = Done (reply msg JobNotFound b)"
    and "showPrintOptions now b msg pjid = reply msg JobNotFound b"
    and "userSessions (reply msg JobNotFound b) = userSessions b"
  using assms
  by (simp_all add: handleCopiesInput_def handleOptionsInput_def showPrintOptions_def Let_def)

text \<open>
  Claim C9 (the code departs from it). When the session's job is missing from the queue,
  the handlers of \<open>set_copies\<close> and \<open>set_options\<close> and the options branch of
  \<open>confirm_print\<close> reply that the job was not found and return with the session still
  stored; only the confirmation branch, through \<^verbatim>\<open>processPrintJob\<close>, deletes it.
\<close>

theorem dangling_session_survives:
  "handleUserResponse offline_run 2000 (dangling_bot set_copies) (example_msg ''3'')
     = Done ((dangling_bot set_copies)\<lparr>effects := [Reply ''628a@c.us'' JobNotFound]\<rparr>)
   \<and> handleUserResponse offline_run 2000 (dangling_bot set_options) (example_msg ''1'')
     = Done ((dangling_bot set_options)\<lparr>effects := [Reply ''628a@c.us'' JobNotFound]\<rparr>)
   \<and> handleUserResponse offline_run 2000 (dangling_bot confirm_print) (example_msg ''opsi'')
     = Done ((dangling_bot confirm_print)\<lparr>effects := [Reply ''628a@c.us'' JobNotFound]\<rparr>)
   \<and> map fst (userSessions (dangling_bot set_copies)) = [''628a@c.us'']
   \<and> handleUserResponse offline_run 2000 (dangling_bot confirm_print) (example_msg ''YA'')
     = Done ((dangling_bot confirm_print)\<lparr>userSessions := [], effects := [Reply ''628a@c.us'' JobNotFound]\<rparr>)"
  by (simp add: handleUserResponse_def handleCopiesInput_def handleOptionsInput_def showPrintOptions_def
        processPrintJob_def responses dangling_bot_def example_msg_def reply_def emit_def Let_def)

section \<open>Execution engine\<close>

lemma retry_past: "retryLoop pr j 3 4 = (Inr False, [])"
  by (subst retryLoop.simps) simp

lemma retry_third:
  "retryLoop pr j 3 3 =
     (case pr 3 of
        PrintOk \<Rightarrow> (Inr True, [ExecutePrint j 3])
      | PrintThrows \<Rightarrow> (Inl (Thrown ''executePrint''), [ExecutePrint j 3])
      | PrintFail \<Rightarrow> (Inr False, [ExecutePrint j 3]))"
  by (subst retryLoop.simps) (simp add: retry_past split: print_outcome.splits)

lemma retry_second:
  "retryLoop pr j 3 2 =
     (case pr 2 of
        PrintOk \<Rightarrow> (Inr True, [ExecutePrint j 2])
      | PrintThrows \<Rightarrow> (Inl (Thrown ''executePrint''), [ExecutePrint j 2])
      | PrintFail \<Rightarrow>
          (fst (retryLoop pr j 3 3), ExecutePrint j 2 # Wait 2000 # snd (retryLoop pr j 3 3)))"
  by (subst retryLoop.simps) (simp split: print_outcome.splits prod.splits)

lemma retry_first:
  "retryLoop pr j 3 1 =
     (case pr 1 of
        PrintOk \<Rightarrow> (Inr True, [ExecutePrint j 1])
      | PrintThrows \<Rightarrow> (Inl (Thrown ''executePrint''), [ExecutePrint j 1])
      | PrintFail \<Rightarrow>
          (fst (retryLoop pr j 3 2), ExecutePrint j 1 # Wait 2000 # snd (retryLoop pr j 3 2)))"
  by (subst retryLoop.simps) (simp del: One_nat_def split: print_outcome.splits prod.splits)

lemma retryTrace_values:
  "retryTrace j 1 = [ExecutePrint j 1]"
  "retryTrace j 2 = [ExecutePrint j 1, Wait 2000, ExecutePrint j 2]"
  "retryTrace j 3 = [ExecutePrint j 1, Wait 2000, ExecutePrint j 2, Wait 2000, ExecutePrint j 3]"
  by (simp_all add: eval_nat_numeral)

lemma executePrintWithRetry_started:
  "executePrintWithRetry pr (j\<lparr>status := s, startedAt := t\<rparr>) n = executePrintWithRetry pr j n"
  by (simp add: executePrintWithRetry_def)

lemma retry_outcomes:
  "(pr 1 = PrintOk \<and> executePrintWithRetry pr job 3 = (Inr True, retryTrace (jobId job) 1))
 \<or> (pr 1 = PrintThrows \<and> executePrintWithRetry pr job 3 = (Inl (Thrown ''executePrint''), retryTrace (jobId job) 1))
 \<or> (pr 1 = PrintFail \<and> pr 2 = PrintOk \<and> executePrintWithRetry pr job 3 = (Inr True, retryTrace (jobId job) 2))
 \<or> (pr 1 = PrintFail \<and> pr 2 = PrintThrows
       \<and> executePrintWithRetry pr job 3 = (Inl (Thrown ''executePrint''), retryTrace (jobId job) 2))
 \<or> (pr 1 = PrintFail \<and> pr 2 = PrintFail \<and> pr 3 = PrintOk
       \<and> executePrintWithRetry pr job 3 = (Inr True, retryTrace (jobId job) 3))
 \<or> (pr 1 = PrintFail \<and> pr 2 = PrintFail \<and> pr 3 = PrintThrows
       \<and> executePrintWithRetry pr job 3 = (Inl (Thrown ''executePrint''), retryTrace (jobId job) 3))
 \<or> (pr 1 = PrintFail \<and> pr 2 = PrintFail \<and> pr 3 = PrintFail
       \<and> executePrintWithRetry pr job 3 = (Inr False, retryTrace (jobId job) 3))"
  unfolding executePrintWithRetry_def retry_first retry_second retry_third retryTrace_values
  by (cases "pr 1"; cases "pr 2"; cases "pr 3"; simp del: One_nat_def)

lemma below_two: "1 \<le> j \<Longrightarrow> j < (2::nat) \<Longrightarrow> j = 1"
  by arith

lemma below_three: "1 \<le> j \<Longrightarrow> j < (3::nat) \<Longrightarrow> j = 1 \<or> j = 2"
  by arith

lemma run_online_effects:
  assumes "map_of (printQueue b) pjid = Some job" and "printerOnline run"
  shows "effects (processPrintJob run b msg pjid) =
           effects b @ [Reply (msgFrom msg) Processing, CheckPrinter, EditMsg (msgFrom msg) SendingToPrinter]
             @ snd (executePrintWithRetry (printResult run) job 3)
             @ [case fst (executePrintWithRetry (printResult run) job 3) of
                  Inr ok \<Rightarrow> if ok then EditMsg (msgFrom msg)
                                (PrintSuccess (job\<lparr>status := Completed, startedAt := Some (startTime run),
                                                    completedAt := Some (endTime run)\<rparr>))
                            else EditMsg (msgFrom msg) PrintFailedAfterRetries
                | Inl e \<Rightarrow> Reply (msgFrom msg) SystemErrorMsg,
                SetTimeoutCleanup 300000 pjid]"
  using assms
  by (simp add: processPrintJob_def Let_def executePrintWithRetry_started
        split: prod.splits sum.splits bool.splits)

lemma run_online_job:
  assumes "map_of (printQueue b) pjid = Some job" and "printerOnline run"
  shows "map_of (printQueue (processPrintJob run b msg pjid)) pjid =
           Some (case fst (executePrintWithRetry (printResult run) job 3) of
                   Inr ok \<Rightarrow> if ok then job\<lparr>status := Completed, startedAt := Some (startTime run),
                                               completedAt := Some (endTime run)\<rparr>
                             else job\<lparr>status := Failed, startedAt := Some (startTime run),
                                       failedAt := Some (endTime run)\<rparr>
                 | Inl e \<Rightarrow> job\<lparr>status := Failed, startedAt := Some (startTime run)\<rparr>)"
  using assms
  by (simp add: processPrintJob_def Let_def executePrintWithRetry_started update_conv'
        split: prod.splits sum.splits bool.splits)

lemma run_online_sessions:
  assumes "map_of (printQueue b) pjid = Some job" and "printerOnline run"
  shows "userSessions (processPrintJob run b msg pjid) = AList.delete (msgFrom msg) (userSessions b)"
  using assms
  by (simp add: processPrintJob_def Let_def executePrintWithRetry_started
        split: prod.splits sum.splits bool.splits)

lemma run_online_history:
  assumes "map_of (printQueue b) pjid = Some job" and "printerOnline run"
  shows "printHistory (processPrintJob run b msg pjid) =
           (if fst (executePrintWithRetry (printResult run) job 3) = Inr True
            then take 100 (job\<lparr>status := Completed, startedAt := Some (startTime run),
                                 completedAt := Some (endTime run)\<rparr> # printHistory b)
            else printHistory b)"
  using assms
  by (simp add: processPrintJob_def Let_def executePrintWithRetry_started
        split: prod.splits sum.splits bool.splits)

lemma run_offline_effects:
  assumes "map_of (printQueue b) pjid = Some job" and "\<not> printerOnline run"
  shows "effects (processPrintJob run b msg pjid) =
           effects b @ [Reply (msgFrom msg) Processing, CheckPrinter, EditMsg (msgFrom msg) PrinterOffline]"
    and "map_of (printQueue (processPrintJob run b msg pjid)) pjid =
           Some (job\<lparr>status := Failed, startedAt := Some (startTime run)\<rparr>)"
    and "userSessions (processPrintJob run b msg pjid) = userSessions b"
    and "printHistory (processPrintJob run b msg pjid) = printHistory b"
  using assms
  by (simp_all add: processPrintJob_def Let_def update_conv')

lemma failing_run_result:
  "executePrintWithRetry (printResult failing_run) job 3
     = (Inr False, [ExecutePrint (jobId job) 1, Wait 2000, ExecutePrint (jobId job) 2, Wait 2000,
                    ExecutePrint (jobId job) 3])"
  by (simp add: executePrintWithRetry_def retry_first retry_second retry_third failing_run_def
        del: One_nat_def)

text \<open>
  Claim C6. Take a run of \<^verbatim>\<open>processPrintJob\<close> on a queued job with the printer online.
  For some \<open>k\<close> from 1 to 3 the printer calls and delays of the run are exactly the attempts
  1 to \<open>k\<close> with one delay of 2000 ms between consecutive attempts and none after the
  last; the attempts before \<open>k\<close> all failed; when \<open>k\<close> is less than 3 the \<open>k\<close>-th attempt did
  not fail, so nothing follows a success; the job ends \<open>Completed\<close> exactly when the
  \<open>k\<close>-th attempt succeeded; and the failure after retries is reported exactly when
  \<open>k = 3\<close> and the third attempt failed too.
\<close>

theorem retry_at_most_three:
  assumes found: "map_of (printQueue b) pjid = Some job" and online: "printerOnline run"
  shows "\<exists>k. 1 \<le> k \<and> k \<le> 3
          \<and> printTrace (newEffects b (processPrintJob run b msg pjid)) = retryTrace (jobId job) k
          \<and> (\<forall>j. 1 \<le> j \<and> j < k \<longrightarrow> printResult run j = PrintFail)
          \<and> (k < 3 \<longrightarrow> printResult run k \<noteq> PrintFail)
          \<and> (map_option status (map_of (printQueue (processPrintJob run b msg pjid)) pjid) = Some Completed
                \<longleftrightarrow> printResult run k = PrintOk)
          \<and> (EditMsg (msgFrom msg) PrintFailedAfterRetries
                  \<in> set (newEffects b (processPrintJob run b msg pjid))
                \<longleftrightarrow> k = 3 \<and> printResult run 3 = PrintFail)"
proof -
  let ?pr = "printResult run" and ?b' = "processPrintJob run b msg pjid"
  let ?r = "executePrintWithRetry ?pr job 3"
  note eff = newEffects_append[OF run_online_effects[OF found online, of msg]]
  note jb = run_online_job[OF found online, of msg]
  from retry_outcomes[of ?pr job]
  consider (ok1) "?pr 1 = PrintOk" "?r = (Inr True, retryTrace (jobId job) 1)"
    | (th1) "?pr 1 = PrintThrows" "?r = (Inl (Thrown ''executePrint''), retryTrace (jobId job) 1)"
    | (ok2) "?pr 1 = PrintFail" "?pr 2 = PrintOk" "?r = (Inr True, retryTrace (jobId job) 2)"
    | (th2) "?pr 1 = PrintFail" "?pr 2 = PrintThrows"
            "?r = (Inl (Thrown ''executePrint''), retryTrace (jobId job) 2)"
    | (ok3) "?pr 1 = PrintFail" "?pr 2 = PrintFail" "?pr 3 = PrintOk"
            "?r = (Inr True, retryTrace (jobId job) 3)"
    | (th3) "?pr 1 = PrintFail" "?pr 2 = PrintFail" "?pr 3 = PrintThrows"
            "?r = (Inl (Thrown ''executePrint''), retryTrace (jobId job) 3)"
    | (no3) "?pr 1 = PrintFail" "?pr 2 = PrintFail" "?pr 3 = PrintFail"
            "?r = (Inr False, retryTrace (jobId job) 3)"
    by blast
  then show ?thesis
  proof cases
    case ok1
    show ?thesis
      by (rule exI[of _ 1]) (simp add: eff jb ok1 printTrace_def retryTrace_values del: One_nat_def)
  next
    case th1
    show ?thesis
      by (rule exI[of _ 1]) (simp add: eff jb th1 printTrace_def retryTrace_values del: One_nat_def)
  next
    case ok2
    show ?thesis
      by (rule exI[of _ 2])
         (auto simp add: eff jb ok2 printTrace_def retryTrace_values
            simp del: One_nat_def dest!: below_two)
  next
    case th2
    show ?thesis
      by (rule exI[of _ 2])
         (auto simp add: eff jb th2 printTrace_def retryTrace_values
            simp del: One_nat_def dest!: below_two)
  next
    case ok3
    show ?thesis
      by (rule exI[of _ 3])
         (auto simp add: eff jb ok3 printTrace_def retryTrace_values
            simp del: One_nat_def dest!: below_three)
  next
    case th3
    show ?thesis
      by (rule exI[of _ 3])
         (auto simp add: eff jb th3 printTrace_def retryTrace_values
            simp del: One_nat_def dest!: below_three)
  next
    case no3
    show ?thesis
      by (rule exI[of _ 3])
         (auto simp add: eff jb no3 printTrace_def retryTrace_values
            simp del: One_nat_def dest!: below_three)
  qed
qed

text \<open>A printer that fails twice and then prints.\<close>

theorem retry_at_most_three_witness:
  "map_of (printQueue pending_bot) ''1000'' = Some example_job
   \<and> printerOnline third_time_run
   \<and> (\<exists>k. 1 \<le> k \<and> k \<le> 3
        \<and> printTrace (newEffects pending_bot
              (processPrintJob third_time_run pending_bot (example_msg ''ya'') ''1000''))
            = retryTrace (jobId example_job) k
        \<and> (\<forall>j. 1 \<le> j \<and> j < k \<longrightarrow> printResult third_time_run j = PrintFail)
        \<and> (k < 3 \<longrightarrow> printResult third_time_run k \<noteq> PrintFail)
        \<and> (map_option status (map_of (printQueue
              (processPrintJob third_time_run pending_bot (example_msg ''ya'') ''1000'')) ''1000'')
              = Some Completed
            \<longleftrightarrow> printResult third_time_run k = PrintOk)
        \<and> (EditMsg (msgFrom (example_msg ''ya'')) PrintFailedAfterRetries
              \<in> set (newEffects pending_bot
                    (processPrintJob third_time_run pending_bot (example_msg ''ya'') ''1000''))
            \<longleftrightarrow> k = 3 \<and> printResult third_time_run 3 = PrintFail))"
proof -
  have found: "map_of (printQueue pending_bot) ''1000'' = Some example_job"
    by (simp add: pending_bot_def)
  have online: "printerOnline third_time_run"
    by (simp add: third_time_run_def)
  from retry_at_most_three[OF found online, of "example_msg ''ya''"] found online
  show ?thesis by blast
qed

text \<open>
  Claim C7. When the printer answers offline for a queued job, the run leaves the job
  \<open>Failed\<close> (with its start time set), its effects are the processing reply, one health
  check and the offline notice, and among them there is no print attempt and no delay.
\<close>

theorem offline_fails_without_attempt:
  assumes found: "map_of (printQueue b) pjid = Some job" and offline: "\<not> printerOnline run"
  shows "map_of (printQueue (processPrintJob run b msg pjid)) pjid
           = Some (job\<lparr>status := Failed, startedAt := Some (startTime run)\<rparr>)
       \<and> newEffects b (processPrintJob run b msg pjid)
           = [Reply (msgFrom msg) Processing, CheckPrinter, EditMsg (msgFrom msg) PrinterOffline]
       \<and> printTrace (newEffects b (processPrintJob run b msg pjid)) = []"
  using run_offline_effects[OF found offline, of msg]
  by (simp add: newEffects_def printTrace_def)

text \<open>The example job with the printer offline.\<close>

theorem offline_fails_without_attempt_witness:
  "map_of (printQueue pending_bot) ''1000'' = Some example_job
   \<and> \<not> printerOnline offline_run
   \<and> map_of (printQueue (processPrintJob offline_run pending_bot (example_msg ''ya'') ''1000'')) ''1000''
        = Some (example_job\<lparr>status := Failed, startedAt := Some (startTime offline_run)\<rparr>)
   \<and> newEffects pending_bot (processPrintJob offline_run pending_bot (example_msg ''ya'') ''1000'')
        = [Reply (msgFrom (example_msg ''ya'')) Processing, CheckPrinter,
           EditMsg (msgFrom (example_msg ''ya'')) PrinterOffline]
   \<and> printTrace (newEffects pending_bot
        (processPrintJob offline_run pending_bot (example_msg ''ya'') ''1000'')) = []"
proof -
  have found: "map_of (printQueue pending_bot) ''1000'' = Some example_job"
    by (simp add: pending_bot_def)
  have offline: "\<not> printerOnline offline_run"
    by (simp add: offline_run_def)
  from offline_fails_without_attempt[OF found offline, of "example_msg ''ya''"] found offline
  show ?thesis by blast
qed

text \<open>In general: a run that does not end in success leaves the history list alone.\<close>

lemma unsuccessful_run_history:
  assumes "map_of (printQueue b) pjid = Some job" and "printerOnline run"
    and "printResult run 1 = PrintFail" and "printResult run 2 = PrintFail"
    and "printResult run 3 = PrintFail"
  shows "printHistory (processPrintJob run b msg pjid) = printHistory b"
    and "map_of (printQueue (processPrintJob run b msg pjid)) pjid
           = Some (job\<lparr>status := Failed, startedAt := Some (startTime run),
                       failedAt := Some (endTime run)\<rparr>)"
proof -
  from retry_outcomes[of "printResult run" job] assms(3-5)
  have r: "executePrintWithRetry (printResult run) job 3 = (Inr False, retryTrace (jobId job) 3)"
    by auto
  show "printHistory (processPrintJob run b msg pjid) = printHistory b"
    by (simp add: run_online_history[OF assms(1,2)] r)
  show "map_of (printQueue (processPrintJob run b msg pjid)) pjid
           = Some (job\<lparr>status := Failed, startedAt := Some (startTime run),
                       failedAt := Some (endTime run)\<rparr>)"
    by (simp add: run_online_job[OF assms(1,2)] r)
qed

text \<open>
  Claim C4 (the code departs from it). A run in which all three attempts fail leaves the
  job \<open>Failed\<close> with its failure time recorded, and the history list as empty as before:
  the failure branch of \<^verbatim>\<open>processPrintJob\<close> appends nothing to \<^verbatim>\<open>printHistory\<close>.
\<close>

theorem failed_run_not_in_history:
  "map_of (printQueue (processPrintJob failing_run pending_bot (example_msg ''ya'') ''1000'')) ''1000''
     = Some (example_job\<lparr>status := Failed, startedAt := Some 2000, failedAt := Some 9000\<rparr>)
   \<and> printTrace (newEffects pending_bot (processPrintJob failing_run pending_bot (example_msg ''ya'') ''1000''))
     = [ExecutePrint ''1000'' 1, Wait 2000, ExecutePrint ''1000'' 2, Wait 2000, ExecutePrint ''1000'' 3]
   \<and> printHistory (processPrintJob failing_run pending_bot (example_msg ''ya'') ''1000'') = []"
proof -
  have online: "printerOnline failing_run" by (simp add: failing_run_def)
  note run_online_job[OF pending_bot_job online, of "example_msg ''ya''"]
    run_online_history[OF pending_bot_job online, of "example_msg ''ya''"]
    newEffects_append[OF run_online_effects[OF pending_bot_job online, of "example_msg ''ya''"]]
  then show ?thesis
    by (simp add: failing_run_result printTrace_def example_job_def)
       (simp add: failing_run_def pending_bot_def)
qed

text \<open>
  Claim C5 (the code departs from it). With the printer offline \<^verbatim>\<open>processPrintJob\<close>
  returns from inside the \<^verbatim>\<open>try\<close> block: the session is still stored and no cleanup timer
  is set. The run whose three attempts fail reaches the end of the function: the session
  is deleted and the removal of the job is scheduled after 300000 ms.
\<close>

theorem offline_run_skips_cleanup:
  "userSessions (processPrintJob offline_run pending_bot (example_msg ''ya'') ''1000'')
     = [(''628a@c.us'', \<lparr> step = confirm_print, printJobId = ''1000'', lastActivity = 1000 \<rparr>)]
   \<and> filter isCleanupTimer
        (newEffects pending_bot (processPrintJob offline_run pending_bot (example_msg ''ya'') ''1000'')) = []
   \<and> userSessions (processPrintJob failing_run pending_bot (example_msg ''ya'') ''1000'') = []
   \<and> filter isCleanupTimer
        (newEffects pending_bot (processPrintJob failing_run pending_bot (example_msg ''ya'') ''1000''))
       = [SetTimeoutCleanup 300000 ''1000'']"
proof -
  have online: "printerOnline failing_run" by (simp add: failing_run_def)
  have offline: "\<not> printerOnline offline_run" by (simp add: offline_run_def)
  have from_chat: "msgFrom (example_msg ''ya'') = ''628a@c.us''" by (simp add: example_msg_def)
  have sessions: "userSessions pending_bot
      = [(''628a@c.us'', \<lparr> step = confirm_print, printJobId = ''1000'', lastActivity = 1000 \<rparr>)]"
    by (simp add: pending_bot_def)
  have s1: "userSessions (processPrintJob offline_run pending_bot (example_msg ''ya'') ''1000'')
     = [(''628a@c.us'', \<lparr> step = confirm_print, printJobId = ''1000'', lastActivity = 1000 \<rparr>)]"
    using run_offline_effects(3)[OF pending_bot_job offline, of "example_msg ''ya''"] sessions by simp
  have e1: "filter isCleanupTimer
        (newEffects pending_bot (processPrintJob offline_run pending_bot (example_msg ''ya'') ''1000'')) = []"
    using newEffects_append[OF run_offline_effects(1)[OF pending_bot_job offline, of "example_msg ''ya''"]]
    by simp
  have s2: "userSessions (processPrintJob failing_run pending_bot (example_msg ''ya'') ''1000'') = []"
    using run_online_sessions[OF pending_bot_job online, of "example_msg ''ya''"] sessions from_chat
    by simp
  have e2: "filter isCleanupTimer
        (newEffects pending_bot (processPrintJob failing_run pending_bot (example_msg ''ya'') ''1000''))
       = [SetTimeoutCleanup 300000 ''1000'']"
    using newEffects_append[OF run_online_effects[OF pending_bot_job online, of "example_msg ''ya''"]]
    by (simp add: failing_run_result)
  from s1 e1 s2 e2 show ?thesis by simp
qed

section \<open>Reclamation: the job sweep\<close>




















end
